theory Spec2Isabelle
  imports Complex_Main "HOL-Library.Char_ord" "HOL-Library.List_Lexorder" "HOL-Library.Multiset"
begin

section \<open>EmotionTracker: the mood journal and its poem sources\<close>

text \<open>
  A shallow embedding of \<^verbatim>\<open>mood_tracker.py\<close> (class \<^verbatim>\<open>MoodTrackerCLI\<close>) and of
  \<^verbatim>\<open>insert_poems_to_duckdb\<close> from \<^verbatim>\<open>scrape_poems.py\<close>.

  Python strings are modelled as HOL strings, that is as lists of 8-bit characters read
  as code points below 256; Python integers are \<open>int\<close>. The curses calls that draw on
  the terminal are left out, except where an exception they raise is caught by the
  code: what a method draws is returned as a value instead. The
  outside world (the clock, the DuckDB file, the random order of a query, the answers of
  the remote poem service) is an explicit argument of each method that consults it.
\<close>

subsection \<open>Python exceptions and text primitives\<close>

datatype py_exn =
    ValueError | KeyError | TypeError | AttributeError | OverflowError
  | IndexError | RequestException | JSONDecodeError | DuckDBError

text \<open>
  The characters \<^verbatim>\<open>int()\<close> skips around a number: the C-locale white space, and the two
  code points below 256 that CPython turns into a blank before parsing (NEL and the
  no-break space). The typed input of \<^verbatim>\<open>get_input\<close> holds codes 32 to 126 only, where
  the blank is the single such character.
\<close>

definition int_space :: "char \<Rightarrow> bool" where
  "int_space c \<longleftrightarrow> of_char c \<in> {9::nat, 10, 11, 12, 13, 32, 133, 160}"


definition strip_with :: "(char \<Rightarrow> bool) \<Rightarrow> string \<Rightarrow> string" where
  "strip_with sp s = rev (dropWhile sp (rev (dropWhile sp s)))"


definition is_digit :: "char \<Rightarrow> bool" where
  "is_digit c \<longleftrightarrow> 48 \<le> (of_char c :: nat) \<and> (of_char c :: nat) \<le> 57"

definition digit_val :: "char \<Rightarrow> nat" where
  "digit_val c = of_char c - 48"

text \<open>
  The digits of a decimal literal after its first digit: a digit, or one underscore
  that a digit follows. \<open>None\<close> is the \<^verbatim>\<open>ValueError\<close> of \<^verbatim>\<open>int()\<close>.
\<close>

fun digits_value :: "nat \<Rightarrow> string \<Rightarrow> nat option" where
  "digits_value acc [] = Some acc"
| "digits_value acc [c] =
     (if is_digit c then Some (10 * acc + digit_val c) else None)"
| "digits_value acc (c # d # cs) =
     (if is_digit c then digits_value (10 * acc + digit_val c) (d # cs)
      else if c = CHR ''_'' \<and> is_digit d then digits_value (10 * acc + digit_val d) cs
      else None)"

definition literal_value :: "string \<Rightarrow> nat option" where
  "literal_value s =
     (case s of [] \<Rightarrow> None
      | c # cs \<Rightarrow> if is_digit c then digits_value (digit_val c) cs else None)"

text \<open>\<^verbatim>\<open>int(s)\<close> for a string, base 10: white space, an optional sign, the literal.\<close>

definition py_int :: "string \<Rightarrow> int option" where
  "py_int s =
     (case strip_with int_space s of
        [] \<Rightarrow> None
      | c # cs \<Rightarrow>
          if c = CHR ''-'' then map_option (\<lambda>n. - int n) (literal_value cs)
          else if c = CHR ''+'' then map_option int (literal_value cs)
          else map_option int (literal_value (c # cs)))"

text \<open>\<^verbatim>\<open>str(n)\<close> for an integer, as an f-string renders it.\<close>

fun str_nat :: "nat \<Rightarrow> string" where
  "str_nat n =
     (if n < 10 then [char_of (48 + n)]
      else str_nat (n div 10) @ [char_of (48 + n mod 10)])"

declare str_nat.simps [simp del]

definition str_int :: "int \<Rightarrow> string" where
  "str_int i = (if i < 0 then CHR ''-'' # str_nat (nat (- i)) else str_nat (nat i))"

subsection \<open>The session and its mood history\<close>

record session =
  dates :: "string list"
  moods :: "int list"
  current_date :: string

text \<open>\<^verbatim>\<open>__init__\<close>: two empty lists, and the date the clock shows at construction.\<close>

definition init_session :: "string \<Rightarrow> session" where
  "init_session today = \<lparr>dates = [], moods = [], current_date = today\<rparr>"

subsection \<open>Trend detection\<close>

datatype trend = LowStreak | HighStreak | NoTrend

text \<open>The slice \<^verbatim>\<open>xs[-3:]\<close>: the whole list when it is shorter than three.\<close>

definition last_three :: "'a list \<Rightarrow> 'a list" where
  "last_three xs = drop (length xs - 3) xs"

text \<open>
  \<^verbatim>\<open>check_mood_trends\<close> draws one of two notices or nothing; the value says which.
\<close>

definition check_mood_trends :: "session \<Rightarrow> trend" where
  "check_mood_trends s =
     (if length (moods s) \<ge> 3 then
        (let last_three_moods = last_three (moods s) in
         if list_all (\<lambda>mood. mood < 5) last_three_moods then LowStreak
         else if list_all (\<lambda>mood. mood > 5) last_three_moods then HighStreak
         else NoTrend)
      else NoTrend)"

subsection \<open>The poem store\<close>

text \<open>
  A row of the table \<^verbatim>\<open>poems\<close> (the defaulted column \<^verbatim>\<open>created_at\<close> is never
  read and is left out). The dictionary that \<^verbatim>\<open>get_poem_by_mood\<close> returns has the
  first three columns only.
\<close>

record poem =
  poem_name :: string
  writer_name :: string
  poem_text :: string

record poem_row = poem +
  row_id :: int
  mood_type :: string

text \<open>
  What is found at \<^verbatim>\<open>db_path\<close>: no file, a file DuckDB cannot open, a database
  without the table, or the table with its rows in storage order.
\<close>

datatype storage = NoFile | Unreadable | NoTable | Table "poem_row list"

text \<open>
  The query \<^verbatim>\<open>WHERE mood_type = ? ORDER BY RANDOM() LIMIT 1\<close> with \<^verbatim>\<open>fetchone()\<close>:
  the random order is given by the number \<open>rnd\<close>, which picks the matching row that
  comes first; no matching row gives \<^verbatim>\<open>None\<close>.
\<close>

definition select_random :: "poem_row list \<Rightarrow> nat \<Rightarrow> string \<Rightarrow> poem_row option" where
  "select_random rows rnd mt =
     (let matching = filter (\<lambda>r. mood_type r = mt) rows in
      if matching = [] then None else Some (matching ! (rnd mod length matching)))"

definition mood_type_of :: "int \<Rightarrow> string" where
  "mood_type_of mood_score = (if mood_score \<ge> 6 then ''happy'' else ''sad'')"

text \<open>The body of the \<^verbatim>\<open>try\<close> block: connecting or querying raises on a bad store.\<close>

definition query_poem :: "storage \<Rightarrow> nat \<Rightarrow> int \<Rightarrow> py_exn + poem option" where
  "query_poem st rnd mood_score =
     (case st of
        Table rows \<Rightarrow>
          (case select_random rows rnd (mood_type_of mood_score) of
             Some result \<Rightarrow>
               Inr (Some \<lparr>poem_name = poem_name result, writer_name = writer_name result,
                          poem_text = poem_text result\<rparr>)
           | None \<Rightarrow> Inr None)
      | _ \<Rightarrow> Inl DuckDBError)"

text \<open>
  \<^verbatim>\<open>get_poem_by_mood\<close>: \<^verbatim>\<open>None\<close> when the file does not exist, and
  \<^verbatim>\<open>except Exception: return None\<close> around the query.
\<close>

definition get_poem_by_mood :: "storage \<Rightarrow> nat \<Rightarrow> int \<Rightarrow> py_exn + poem option" where
  "get_poem_by_mood st rnd mood_score =
     (if st = NoFile then Inr None
      else (case query_poem st rnd mood_score of
              Inl e \<Rightarrow> Inr None
            | Inr result \<Rightarrow> Inr result))"

subsection \<open>Recording a mood\<close>

text \<open>
  What \<^verbatim>\<open>add_mood_record\<close> shows: the added record with its poem and trend notice, or
  one of the two rejections.
\<close>

datatype outcome =
    RecordAdded string int "poem option" trend
  | InvalidScore
  | InvalidInput

definition rejection_notice :: "outcome \<Rightarrow> string" where
  "rejection_notice out =
     (case out of
        InvalidScore \<Rightarrow> ''Invalid mood score! Must be between 1 and 10.''
      | InvalidInput \<Rightarrow> ''Invalid input! Please enter a number for the mood score.''
      | RecordAdded _ _ _ _ \<Rightarrow> [])"

subsection \<open>Drawing on the terminal\<close>

text \<open>The size of the terminal: \<^verbatim>\<open>curses.LINES\<close> and \<^verbatim>\<open>curses.COLS\<close>.\<close>

record window =
  LINES :: int
  COLS :: int

text \<open>
  \<^verbatim>\<open>stdscr.addstr(y, x, text)\<close>. Python converts the text to a C string before curses
  sees it, and that conversion raises \<^verbatim>\<open>ValueError\<close> on an embedded NUL character.
  The window is taken to accept every write: a write that curses itself refuses (a
  position outside the window) is not modelled, so the position is left out.
\<close>

definition addstr :: "string \<Rightarrow> py_exn + unit" where
  "addstr line = (if CHR 0x00 \<in> set line then Inl ValueError else Inr ())"

text \<open>The slice \<^verbatim>\<open>s[:k]\<close>; a negative \<open>k\<close> counts from the end.\<close>

definition py_take :: "string \<Rightarrow> int \<Rightarrow> string" where
  "py_take s k = take (nat (if k < 0 then int (length s) + k else k)) s"

text \<open>\<^verbatim>\<open>str.split\<close> at the newline character.\<close>

fun split_lines :: "string \<Rightarrow> string list" where
  "split_lines [] = [[]]"
| "split_lines (c # cs) =
     (if c = CHR 0x0A then [] # split_lines cs
      else (case split_lines cs of [] \<Rightarrow> [[c]] | l # ls \<Rightarrow> (c # l) # ls))"

text \<open>A poem line as \<^verbatim>\<open>display_poem\<close> shows it: cut when wider than the terminal.\<close>

definition display_line :: "window \<Rightarrow> string \<Rightarrow> string" where
  "display_line win poem_line =
     (let max_width = COLS win - 2 in
      if int (length poem_line) > max_width then py_take poem_line (max_width - 3) @ ''...''
      else poem_line)"

text \<open>The inner loop of \<^verbatim>\<open>display_poem\<close>: one \<^verbatim>\<open>addstr\<close> for each character.\<close>

fun draw_chars :: "string \<Rightarrow> py_exn + unit" where
  "draw_chars [] = Inr ()"
| "draw_chars (c # cs) = (case addstr [c] of Inl e \<Rightarrow> Inl e | Inr u \<Rightarrow> draw_chars cs)"

text \<open>The outer loop: it stops after \<open>max_lines\<close> lines or two rows above the bottom.\<close>

fun draw_lines :: "window \<Rightarrow> nat \<Rightarrow> string list \<Rightarrow> int \<Rightarrow> nat \<Rightarrow> py_exn + int" where
  "draw_lines win max_lines [] current_line lines_displayed = Inr current_line"
| "draw_lines win max_lines (poem_line # rest) current_line lines_displayed =
     (if lines_displayed \<ge> max_lines then Inr current_line
      else if current_line \<ge> LINES win - 2 then Inr current_line
      else (case draw_chars (display_line win poem_line) of
              Inl e \<Rightarrow> Inl e
            | Inr u \<Rightarrow> draw_lines win max_lines rest (current_line + 1) (lines_displayed + 1)))"

text \<open>\<^verbatim>\<open>display_poem\<close>; the result is the row after the last one drawn.\<close>

definition display_poem :: "window \<Rightarrow> poem option \<Rightarrow> int \<Rightarrow> nat \<Rightarrow> nat \<Rightarrow> py_exn + int" where
  "display_poem win found start_line max_lines separator_length =
     (case found of
        None \<Rightarrow>
          (case addstr ''No poem found in database for this mood.'' of
             Inl e \<Rightarrow> Inl e
           | Inr u \<Rightarrow> Inr (start_line + 1))
      | Some p \<Rightarrow>
          (case addstr (replicate separator_length CHR ''-'') of Inl e \<Rightarrow> Inl e | Inr u \<Rightarrow>
          (case addstr (''Poem: '' @ poem_name p) of Inl e \<Rightarrow> Inl e | Inr u \<Rightarrow>
          (case addstr (''By: '' @ writer_name p) of Inl e \<Rightarrow> Inl e | Inr u \<Rightarrow>
          (case addstr [] of Inl e \<Rightarrow> Inl e | Inr u \<Rightarrow>
             draw_lines win max_lines
               (if poem_text p = [] then [] else split_lines (poem_text p))
               (start_line + 4) 0)))))"

text \<open>The notice that \<^verbatim>\<open>check_mood_trends\<close> draws for a streak.\<close>

definition trend_notice :: "trend \<Rightarrow> string" where
  "trend_notice t =
     (case t of
        LowStreak \<Rightarrow> ''You'' @ [CHR 0x27] @
          ''ve had three consecutive low moods. Consider reflecting on your feelings.''
      | HighStreak \<Rightarrow> ''You'' @ [CHR 0x27] @
          ''ve had three consecutive high moods. Great job staying positive!''
      | NoTrend \<Rightarrow> [])"

definition draw_trend :: "trend \<Rightarrow> py_exn + unit" where
  "draw_trend t = (if t = NoTrend then Inr () else addstr (trend_notice t))"

subsection \<open>The body of add_mood_record\<close>

text \<open>
  The accepted branch of the \<^verbatim>\<open>try\<close> block after the two appends: the "Record
  added" line, the poem lookup, the poem, the trend notice.
\<close>

definition show_added ::
    "window \<Rightarrow> session \<Rightarrow> storage \<Rightarrow> nat \<Rightarrow> string \<Rightarrow> int \<Rightarrow> py_exn + outcome" where
  "show_added win s' st rnd date_input mood_score =
     (case addstr (''Record added: '' @ date_input @ '' - Mood: '' @ str_int mood_score) of
        Inl e \<Rightarrow> Inl e
      | Inr u \<Rightarrow>
     (case get_poem_by_mood st rnd mood_score of
        Inl e \<Rightarrow> Inl e
      | Inr found \<Rightarrow>
     (case display_poem win found 6 5 50 of
        Inl e \<Rightarrow> Inl e
      | Inr last_poem_line \<Rightarrow>
     (case draw_trend (check_mood_trends s') of
        Inl e \<Rightarrow> Inl e
      | Inr u \<Rightarrow> Inr (RecordAdded date_input mood_score found (check_mood_trends s'))))))"

text \<open>The handler \<^verbatim>\<open>except ValueError\<close>: it draws its notice over the fourth row.\<close>

definition invalid_input :: "session \<Rightarrow> py_exn + (session \<times> outcome)" where
  "invalid_input s =
     (case addstr (rejection_notice InvalidInput) of
        Inl e \<Rightarrow> Inl e
      | Inr u \<Rightarrow> Inr (s, InvalidInput))"

text \<open>
  \<^verbatim>\<open>add_mood_record\<close> on the two typed lines. The \<^verbatim>\<open>try\<close> block encloses the
  parse, the two appends and all the drawing of the accepted branch, and
  \<^verbatim>\<open>except ValueError\<close> is its only handler: a \<^verbatim>\<open>ValueError\<close> raised while drawing
  reaches the handler with the record already appended.
\<close>

definition add_mood_record ::
    "window \<Rightarrow> session \<Rightarrow> storage \<Rightarrow> nat \<Rightarrow> string \<Rightarrow> string \<Rightarrow>
       py_exn + (session \<times> outcome)" where
  "add_mood_record win s st rnd typed_date mood_input =
     (let date_input = (if typed_date = [] then current_date s else typed_date) in
      case py_int mood_input of
        None \<Rightarrow> invalid_input s
      | Some mood_score \<Rightarrow>
          if 1 \<le> mood_score \<and> mood_score \<le> 10 then
            (let s' = s\<lparr>dates := dates s @ [date_input], moods := moods s @ [mood_score]\<rparr> in
             case show_added win s' st rnd date_input mood_score of
               Inl e \<Rightarrow> if e = ValueError then invalid_input s' else Inl e
             | Inr out \<Rightarrow> Inr (s', out))
          else
            (case addstr (rejection_notice InvalidScore) of
               Inl e \<Rightarrow> if e = ValueError then invalid_input s else Inl e
             | Inr u \<Rightarrow> Inr (s, InvalidScore)))"

subsection \<open>Listing and charting\<close>

text \<open>\<^verbatim>\<open>view_mood_records\<close> lists \<^verbatim>\<open>zip(self.dates, self.moods)\<close>.\<close>

definition view_mood_records :: "session \<Rightarrow> (string \<times> int) list" where
  "view_mood_records s = zip (dates s) (moods s)"

text \<open>
  Line 238, \<^verbatim>\<open>sorted(zip(self.dates, self.moods), key=lambda x: x[0])\<close>: a stable sort
  on the date strings, which Python compares code point by code point.
\<close>

definition sorted_dates_moods :: "session \<Rightarrow> (string \<times> int) list" where
  "sorted_dates_moods s = sort_key fst (zip (dates s) (moods s))"

datatype chart = NoRecords | Plot "string list" "int list"

text \<open>
  \<^verbatim>\<open>plot_mood_chart\<close>: the notice "No records to display!" when a list is empty,
  otherwise the sorted pairs, unzipped, go to the plot.
\<close>

definition plot_mood_chart :: "session \<Rightarrow> chart" where
  "plot_mood_chart s =
     (if dates s = [] \<or> moods s = [] then NoRecords
      else Plot (map fst (sorted_dates_moods s)) (map snd (sorted_dates_moods s)))"

subsection \<open>The remote poem service\<close>

text \<open>The Python value that \<^verbatim>\<open>response.json()\<close> builds from a JSON text.\<close>

datatype pyfloat = Finite rat | PosInf | NegInf | NaN

datatype pyobj =
    PNone | PBool bool | PInt int | PFloat pyfloat | PStr string
  | PList "pyobj list" | PDict "(string \<times> pyobj) list"

text \<open>
  One request: \<^verbatim>\<open>requests.get\<close> fails (no connection, the 5 second timeout), the
  status is an error (\<^verbatim>\<open>raise_for_status\<close>), the body is not JSON, or the body parses.
\<close>

datatype response = NoAnswer | ErrorStatus | NotJSON | Body pyobj

record inspiration =
  title :: pyobj
  author :: pyobj
  lines :: pyobj

fun truthy :: "pyobj \<Rightarrow> bool" where
  "truthy PNone = False"
| "truthy (PBool b) = b"
| "truthy (PInt n) = (n \<noteq> 0)"
| "truthy (PFloat f) = (f \<noteq> Finite 0)"
| "truthy (PStr s) = (s \<noteq> [])"
| "truthy (PList xs) = (xs \<noteq> [])"
| "truthy (PDict kvs) = (kvs \<noteq> [])"

fun py_len :: "pyobj \<Rightarrow> py_exn + nat" where
  "py_len (PStr s) = Inr (length s)"
| "py_len (PList xs) = Inr (length xs)"
| "py_len (PDict kvs) = Inr (length kvs)"
| "py_len _ = Inl TypeError"

text \<open>\<^verbatim>\<open>poems[0]\<close>: a dictionary built from JSON has string keys only, so no key 0.\<close>

fun first_item :: "pyobj \<Rightarrow> py_exn + pyobj" where
  "first_item (PList (x # xs)) = Inr x"
| "first_item (PList []) = Inl IndexError"
| "first_item (PStr (c # cs)) = Inr (PStr [c])"
| "first_item (PStr []) = Inl IndexError"
| "first_item (PDict kvs) = Inl KeyError"
| "first_item _ = Inl TypeError"

text \<open>\<^verbatim>\<open>poem.get(key, default)\<close>: only a dictionary has the method.\<close>

fun py_get :: "pyobj \<Rightarrow> string \<Rightarrow> pyobj \<Rightarrow> py_exn + pyobj" where
  "py_get (PDict kvs) key dflt =
     Inr (case map_of kvs key of None \<Rightarrow> dflt | Some v \<Rightarrow> v)"
| "py_get _ key dflt = Inl AttributeError"

text \<open>\<^verbatim>\<open>int(x)\<close>: a float is cut towards zero.\<close>

fun int_of :: "pyobj \<Rightarrow> py_exn + int" where
  "int_of (PInt n) = Inr n"
| "int_of (PBool b) = Inr (if b then 1 else 0)"
| "int_of (PStr s) = (case py_int s of None \<Rightarrow> Inl ValueError | Some n \<Rightarrow> Inr n)"
| "int_of (PFloat (Finite q)) = Inr (if q \<ge> 0 then \<lfloor>q\<rfloor> else \<lceil>q\<rceil>)"
| "int_of (PFloat NaN) = Inl ValueError"
| "int_of (PFloat _) = Inl OverflowError"
| "int_of _ = Inl TypeError"

text \<open>
  The body of the \<^verbatim>\<open>try\<close> block up to the \<^verbatim>\<open>return\<close>: \<open>Inr (Some p)\<close> returns
  \<open>p\<close>, \<open>Inr None\<close> falls through to \<^verbatim>\<open>attempts += 1\<close>, \<open>Inl e\<close> raises \<open>e\<close>.
\<close>

definition try_fetch :: "response \<Rightarrow> py_exn + inspiration option" where
  "try_fetch r =
     (case r of
        NoAnswer \<Rightarrow> Inl RequestException
      | ErrorStatus \<Rightarrow> Inl RequestException
      | NotJSON \<Rightarrow> Inl JSONDecodeError
      | Body poems \<Rightarrow>
          if \<not> truthy poems then Inr None
          else (case py_len poems of Inl e \<Rightarrow> Inl e | Inr n \<Rightarrow>
            if n > 0 then
              (case first_item poems of Inl e \<Rightarrow> Inl e | Inr poem \<Rightarrow>
              (case py_get poem ''linecount'' (PInt 0) of Inl e \<Rightarrow> Inl e | Inr lc \<Rightarrow>
              (case int_of lc of Inl e \<Rightarrow> Inl e | Inr linecount \<Rightarrow>
                 if linecount < 1000 then
                   (case py_get poem ''title'' (PStr ''Untitled'') of Inl e \<Rightarrow> Inl e | Inr t \<Rightarrow>
                   (case py_get poem ''author'' (PStr ''Unknown'') of Inl e \<Rightarrow> Inl e | Inr a \<Rightarrow>
                   (case py_get poem ''lines'' (PList []) of Inl e \<Rightarrow> Inl e | Inr ls \<Rightarrow>
                      Inr (Some \<lparr>title = t, author = a, lines = ls\<rparr>))))
                 else Inr None)))
            else Inr None))"

definition max_attempts :: nat where
  "max_attempts = 20"

text \<open>The exceptions the \<^verbatim>\<open>except\<close> clause of \<^verbatim>\<open>get_random_poem\<close> names.\<close>

definition caught :: "py_exn \<Rightarrow> bool" where
  "caught e \<longleftrightarrow> e = RequestException \<or> e = JSONDecodeError \<or> e = ValueError \<or> e = KeyError"

text \<open>
  The \<^verbatim>\<open>while\<close> loop. \<open>service k\<close> is the answer to request number \<open>k\<close>, and
  \<open>sent\<close> counts the requests made so far; the result pairs the final count with what
  the method returns or raises.
\<close>

function fetch_loop ::
    "(nat \<Rightarrow> response) \<Rightarrow> nat \<Rightarrow> nat \<Rightarrow> nat \<times> (py_exn + inspiration option)" where
  "fetch_loop service attempts sent =
     (if attempts < max_attempts then
        (case try_fetch (service sent) of
           Inr (Some found) \<Rightarrow> (Suc sent, Inr (Some found))
         | Inr None \<Rightarrow> fetch_loop service (Suc attempts) (Suc sent)
         | Inl e \<Rightarrow>
             if caught e then
               (if Suc attempts \<ge> max_attempts then (Suc sent, Inr None)
                else fetch_loop service (Suc attempts) (Suc sent))
             else (Suc sent, Inl e))
      else (sent, Inr None))"
  by pat_completeness auto
termination
  by (relation "measure (\<lambda>(service, attempts, sent). max_attempts - attempts)") auto

declare fetch_loop.simps [simp del]

definition get_random_poem :: "(nat \<Rightarrow> response) \<Rightarrow> nat \<times> (py_exn + inspiration option)" where
  "get_random_poem service = fetch_loop service 0 0"

subsection \<open>Filling the store\<close>








subsection \<open>The menu loop\<close>

text \<open>
  The world as one menu action finds it: the clock, the terminal, the store, the random
  draw of the query and the answers of the remote service.
\<close>

record world =
  clock :: string
  screen :: window
  store :: storage
  draw :: nat
  service :: "nat \<Rightarrow> response"

text \<open>A key of the menu; option 1 comes with the two typed lines (date, score).\<close>

datatype choice =
    AddMood string string | ViewRecords | ViewChart | Inspirations | Exit | OtherKey

text \<open>One pass of the loop in \<^verbatim>\<open>run\<close> for a key other than 5.\<close>

definition handle :: "session \<Rightarrow> world \<Rightarrow> choice \<Rightarrow> py_exn + session" where
  "handle s w c =
     (case c of
        AddMood typed_date mood_input \<Rightarrow>
          (case add_mood_record (screen w) s (store w) (draw w) typed_date mood_input of
             Inl e \<Rightarrow> Inl e
           | Inr (s', out) \<Rightarrow> Inr s')
      | Inspirations \<Rightarrow>
          (case snd (get_random_poem (service w)) of
             Inl e \<Rightarrow> Inl e
           | Inr found \<Rightarrow> Inr s)
      | _ \<Rightarrow> Inr s)"

text \<open>\<^verbatim>\<open>run\<close> on the keys pressed: it ends at key 5, and an exception ends the program.\<close>

fun run :: "session \<Rightarrow> (world \<times> choice) list \<Rightarrow> py_exn + session" where
  "run s [] = Inr s"
| "run s ((w, c) # rest) =
     (if c = Exit then Inr s
      else (case handle s w c of Inl e \<Rightarrow> Inl e | Inr s' \<Rightarrow> run s' rest))"

subsection \<open>A sample session\<close>

definition sample_world :: "string \<Rightarrow> world" where
  "sample_world now = \<lparr>clock = now, screen = \<lparr>LINES = 24, COLS = 80\<rparr>, store = NoFile,
     draw = 0, service = (\<lambda>k. NoAnswer)\<rparr>"

definition sample_keys :: "(world \<times> choice) list" where
  "sample_keys =
     [(sample_world ''2024-03-09'', AddMood [] ''7''),
      (sample_world ''2024-03-10'', ViewRecords),
      (sample_world ''2024-03-11'', AddMood ''2024-02-02'' ''12''),
      (sample_world ''2024-03-12'', AddMood ''2024-02-03'' ''3'')]"

definition sample_final :: session where
  "sample_final = \<lparr>dates = [''2024-03-01'', ''2024-02-03''], moods = [7, 3],
     current_date = ''2024-03-01''\<rparr>"

subsection \<open>Sample poems\<close>

definition old_row :: poem_row where
  "old_row = \<lparr>poem_name = ''Old'', writer_name = ''Bob'', poem_text = ''tra la'',
     row_id = 1, mood_type = ''happy''\<rparr>"

definition nul_row :: poem_row where
  "nul_row = \<lparr>poem_name = [CHR ''J'', CHR 0x00, CHR ''y''], writer_name = ''Ann'',
     poem_text = ''la la'', row_id = 1, mood_type = ''happy''\<rparr>"

definition last_id_row :: poem_row where
  "last_id_row = \<lparr>poem_name = ''Old'', writer_name = ''Bob'', poem_text = ''tra la'',
     row_id = 2147483647, mood_type = ''sad''\<rparr>"

definition sample_window :: window where
  "sample_window = \<lparr>LINES = 24, COLS = 80\<rparr>"




subsection \<open>Trend classification\<close>

lemma last_three_append3: "last_three (pre @ [a, b, c]) = [a, b, c]"
  by (simp add: last_three_def)

text \<open>
  Claim C1. The trend looks at the last three scores only. A history shorter than three
  gives NoTrend. For a history ending in the scores a, b, c, whatever comes before
  them, the result is LowStreak exactly when all three are below 5, HighStreak exactly
  when all three are above 5, and NoTrend exactly when neither holds (so a 5 among them
  gives NoTrend).
\<close>

theorem check_mood_trends_last_three:
  "(length (moods s) < 3 \<longrightarrow> check_mood_trends s = NoTrend) \<and>
   (\<forall>pre a b c. moods s = pre @ [a, b, c] \<longrightarrow>
      (check_mood_trends s = LowStreak \<longleftrightarrow> a < 5 \<and> b < 5 \<and> c < 5) \<and>
      (check_mood_trends s = HighStreak \<longleftrightarrow> a > 5 \<and> b > 5 \<and> c > 5) \<and>
      (check_mood_trends s = NoTrend \<longleftrightarrow>
         \<not> (a < 5 \<and> b < 5 \<and> c < 5) \<and> \<not> (a > 5 \<and> b > 5 \<and> c > 5)))"
proof (intro conjI allI impI)
  assume "length (moods s) < 3"
  then show "check_mood_trends s = NoTrend"
    by (simp add: check_mood_trends_def)
next
  fix pre a b c
  assume m: "moods s = pre @ [a, b, c]"
  have r: "check_mood_trends s =
      (if a < 5 \<and> b < 5 \<and> c < 5 then LowStreak
       else if a > 5 \<and> b > 5 \<and> c > 5 then HighStreak else NoTrend)"
    by (simp add: check_mood_trends_def m last_three_append3)
  show "check_mood_trends s = LowStreak \<longleftrightarrow> a < 5 \<and> b < 5 \<and> c < 5"
    unfolding r by auto
  show "check_mood_trends s = HighStreak \<longleftrightarrow> a > 5 \<and> b > 5 \<and> c > 5"
    unfolding r by auto
  show "check_mood_trends s = NoTrend \<longleftrightarrow>
      \<not> (a < 5 \<and> b < 5 \<and> c < 5) \<and> \<not> (a > 5 \<and> b > 5 \<and> c > 5)"
    unfolding r by auto
qed

theorem check_mood_trends_last_three_witness:
  "check_mood_trends \<lparr>dates = [''a'', ''b'', ''c'', ''d''], moods = [9, 2, 3, 4],
      current_date = ''2024-03-01''\<rparr> = LowStreak \<and>
   check_mood_trends \<lparr>dates = [''a'', ''b'', ''c'', ''d''], moods = [1, 7, 8, 9],
      current_date = ''2024-03-01''\<rparr> = HighStreak \<and>
   check_mood_trends \<lparr>dates = [''a'', ''b'', ''c''], moods = [4, 5, 6],
      current_date = ''2024-03-01''\<rparr> = NoTrend \<and>
   check_mood_trends \<lparr>dates = [''a'', ''b''], moods = [2, 3],
      current_date = ''2024-03-01''\<rparr> = NoTrend"
proof -
  let ?lo = "\<lparr>dates = [''a'', ''b'', ''c'', ''d''], moods = [9, 2, 3, 4::int],
      current_date = ''2024-03-01''\<rparr>"
  let ?hi = "\<lparr>dates = [''a'', ''b'', ''c'', ''d''], moods = [1, 7, 8, 9::int],
      current_date = ''2024-03-01''\<rparr>"
  let ?mid = "\<lparr>dates = [''a'', ''b'', ''c''], moods = [4, 5, 6::int],
      current_date = ''2024-03-01''\<rparr>"
  let ?short = "\<lparr>dates = [''a'', ''b''], moods = [2, 3::int],
      current_date = ''2024-03-01''\<rparr>"
  have "moods ?lo = [9] @ [2, 3, 4]" by simp
  with check_mood_trends_last_three [of ?lo]
  have 1: "check_mood_trends ?lo = LowStreak" by fastforce
  have "moods ?hi = [1] @ [7, 8, 9]" by simp
  with check_mood_trends_last_three [of ?hi]
  have 2: "check_mood_trends ?hi = HighStreak" by fastforce
  have "moods ?mid = [] @ [4, 5, 6]" by simp
  with check_mood_trends_last_three [of ?mid]
  have 3: "check_mood_trends ?mid = NoTrend" by fastforce
  have "length (moods ?short) < 3" by simp
  with check_mood_trends_last_three [of ?short]
  have 4: "check_mood_trends ?short = NoTrend" by blast
  from 1 2 3 4 show ?thesis by blast
qed

subsection \<open>Validation of a typed score\<close>

lemma py_int_examples:
  "py_int ''7'' = Some 7" "py_int ''10'' = Some 10" "py_int ''ab'' = None"
  "py_int ''11'' = Some 11" "py_int ''0'' = Some 0" "py_int '''' = None"
  "py_int ''-3'' = Some (-3)" "py_int '' 5'' = Some 5" "py_int ''+5'' = Some 5"
  "py_int ''5_'' = None" "py_int ''1_0'' = Some 10"
  by (simp_all add: py_int_def strip_with_def int_space_def literal_value_def
      is_digit_def digit_val_def)

lemma py_int_one_to_ten:
  "py_int ''1'' = Some 1" "py_int ''2'' = Some 2" "py_int ''3'' = Some 3"
  "py_int ''4'' = Some 4" "py_int ''5'' = Some 5" "py_int ''6'' = Some 6"
  "py_int ''7'' = Some 7" "py_int ''8'' = Some 8" "py_int ''9'' = Some 9"
  "py_int ''10'' = Some 10"
  by (simp_all add: py_int_def strip_with_def int_space_def literal_value_def
      is_digit_def digit_val_def)

text \<open>
  Drawing raises nothing but \<^verbatim>\<open>ValueError\<close>, and only on a NUL character.
\<close>

lemma get_poem_by_mood_returns: "\<exists>result. get_poem_by_mood st rnd mood_score = Inr result"
  by (cases st) (auto simp: get_poem_by_mood_def query_poem_def split: option.splits sum.splits)

lemma addstr_cases: "addstr line = Inr () \<or> addstr line = Inl ValueError"
  by (simp add: addstr_def)

lemma addstr_notices:
  "addstr (rejection_notice InvalidInput) = Inr ()"
  "addstr (rejection_notice InvalidScore) = Inr ()"
  "addstr ''No poem found in database for this mood.'' = Inr ()"
  by (simp_all add: addstr_def rejection_notice_def)

lemma invalid_input_returns: "invalid_input s = Inr (s, InvalidInput)"
  by (simp add: invalid_input_def addstr_notices)

lemma draw_chars_cases: "draw_chars line = Inr () \<or> draw_chars line = Inl ValueError"
  by (induction line) (auto simp: addstr_def)

lemma draw_lines_cases:
  "(\<exists>n. draw_lines win max_lines ls current_line shown = Inr n) \<or>
   draw_lines win max_lines ls current_line shown = Inl ValueError"
proof (induction ls arbitrary: current_line shown)
  case Nil
  then show ?case by simp
next
  case (Cons l ls)
  from draw_chars_cases [of "display_line win l"] Cons.IH [of "current_line + 1" "shown + 1"]
  show ?case by auto
qed

lemma display_poem_cases:
  "(\<exists>n. display_poem win found start_line max_lines sep = Inr n) \<or>
   display_poem win found start_line max_lines sep = Inl ValueError"
proof (cases found)
  case None
  then show ?thesis by (simp add: display_poem_def addstr_notices)
next
  case (Some p)
  from draw_lines_cases [of win max_lines
      "if poem_text p = [] then [] else split_lines (poem_text p)" "start_line + 4" 0]
  show ?thesis
    unfolding display_poem_def Some
    by (auto simp: addstr_def split: sum.splits)
qed

lemma show_added_cases:
  "show_added win s' st rnd date_input mood_score =
     Inr (RecordAdded date_input mood_score
            (case get_poem_by_mood st rnd mood_score of Inr found \<Rightarrow> found | Inl e \<Rightarrow> None)
            (check_mood_trends s')) \<or>
   show_added win s' st rnd date_input mood_score = Inl ValueError"
proof -
  obtain found where f: "get_poem_by_mood st rnd mood_score = Inr found"
    using get_poem_by_mood_returns by blast
  from display_poem_cases [of win found 6 5 50] addstr_cases [of "trend_notice (check_mood_trends s')"]
    addstr_cases [of "''Record added: '' @ date_input @ '' - Mood: '' @ str_int mood_score"]
  show ?thesis
    unfolding show_added_def f draw_trend_def
    by (auto split: sum.splits)
qed

lemma add_mood_record_rejects:
  "py_int mood_input = None \<Longrightarrow>
     add_mood_record win s st rnd typed_date mood_input = Inr (s, InvalidInput)"
  "py_int mood_input = Some n \<Longrightarrow> n < 1 \<or> 10 < n \<Longrightarrow>
     add_mood_record win s st rnd typed_date mood_input = Inr (s, InvalidScore)"
  by (auto simp: add_mood_record_def invalid_input_returns addstr_notices)

lemma add_mood_record_appends:
  assumes "py_int mood_input = Some n" "1 \<le> n" "n \<le> 10"
  shows "\<exists>out. add_mood_record win s st rnd typed_date mood_input =
      Inr (s\<lparr>dates := dates s @ [if typed_date = [] then current_date s else typed_date],
             moods := moods s @ [n]\<rparr>, out) \<and>
      (out = InvalidInput \<or>
       out = RecordAdded (if typed_date = [] then current_date s else typed_date) n
               (case get_poem_by_mood st rnd n of Inr found \<Rightarrow> found | Inl e \<Rightarrow> None)
               (check_mood_trends
                  (s\<lparr>dates := dates s @ [if typed_date = [] then current_date s else typed_date],
                      moods := moods s @ [n]\<rparr>)))"
proof -
  let ?d = "if typed_date = [] then current_date s else typed_date"
  let ?s' = "s\<lparr>dates := dates s @ [?d], moods := moods s @ [n]\<rparr>"
  from show_added_cases [of win ?s' st rnd ?d n] assms
  show ?thesis
    by (auto simp: add_mood_record_def Let_def invalid_input_returns)
qed

text \<open>
  What holds of \<^verbatim>\<open>add_mood_record\<close> on every input: a score that does not parse or
  is out of range leaves the session as it was, with its own notice
  (\<open>add_mood_record_rejects\<close>); a score from 1 to 10 appends exactly one date and one
  score (\<open>add_mood_record_appends\<close>); and it is shown as added when neither the date
  nor the poem found holds a NUL character (\<open>add_mood_record_accepts\<close>).
\<close>

lemma draw_chars_clean: "CHR 0x00 \<notin> set line \<Longrightarrow> draw_chars line = Inr ()"
  by (induction line) (auto simp: addstr_def)

lemma split_lines_chars: "l \<in> set (split_lines s) \<Longrightarrow> set l \<subseteq> set s"
proof (induction s arbitrary: l)
  case Nil
  then show ?case by simp
next
  case (Cons c cs)
  show ?case
  proof (cases "c = CHR 0x0A")
    case True
    with Cons show ?thesis by auto
  next
    case False
    show ?thesis
    proof (cases "split_lines cs")
      case Nil
      with False Cons.prems show ?thesis by auto
    next
      case (Cons l1 ls)
      with False Cons.prems Cons.IH [of l1] Cons.IH [of l] show ?thesis
        by (auto simp: Cons)
    qed
  qed
qed

lemma display_line_clean: "CHR 0x00 \<notin> set l \<Longrightarrow> CHR 0x00 \<notin> set (display_line win l)"
  by (auto simp: display_line_def py_take_def Let_def dest: in_set_takeD)

lemma draw_lines_clean:
  "\<forall>l \<in> set ls. CHR 0x00 \<notin> set l \<Longrightarrow>
   \<exists>n. draw_lines win max_lines ls current_line shown = Inr n"
proof (induction ls arbitrary: current_line shown)
  case Nil
  then show ?case by simp
next
  case (Cons l ls)
  then have "draw_chars (display_line win l) = Inr ()"
    by (simp add: draw_chars_clean display_line_clean)
  with Cons.IH [of "current_line + 1" "shown + 1"] Cons.prems show ?case by auto
qed

lemma display_poem_clean:
  assumes "\<forall>p. found = Some p \<longrightarrow>
      CHR 0x00 \<notin> set (poem_name p) \<and> CHR 0x00 \<notin> set (writer_name p) \<and>
      CHR 0x00 \<notin> set (poem_text p)"
  shows "\<exists>n. display_poem win found start_line max_lines sep = Inr n"
proof (cases found)
  case None
  then show ?thesis by (simp add: display_poem_def addstr_notices)
next
  case (Some p)
  with assms have c: "CHR 0x00 \<notin> set (poem_name p)" "CHR 0x00 \<notin> set (writer_name p)"
    "CHR 0x00 \<notin> set (poem_text p)" by auto
  have "\<forall>l \<in> set (if poem_text p = [] then [] else split_lines (poem_text p)).
      CHR 0x00 \<notin> set l"
    using c(3) split_lines_chars [of _ "poem_text p"] by (auto split: if_splits)
  from draw_lines_clean [OF this, of win max_lines "start_line + 4" 0] c(1,2)
  show ?thesis
    unfolding display_poem_def Some by (auto simp: addstr_def)
qed

lemma str_nat_clean: "CHR 0x00 \<notin> set (str_nat n)"
proof (induction n rule: str_nat.induct)
  case (1 n)
  have d: "char_of (48 + k) \<noteq> CHR 0x00" if "k < 10" for k :: nat
  proof
    assume "char_of (48 + k) = CHR 0x00"
    then have "of_char (char_of (48 + k) :: char) = (of_char (CHR 0x00) :: nat)" by simp
    with that show False by (simp add: of_char_of)
  qed
  show ?case
  proof (cases "n < 10")
    case True
    with d [of n] show ?thesis by (simp add: str_nat.simps [of n])
  next
    case False
    with "1.IH" d [of "n mod 10"] show ?thesis by (simp add: str_nat.simps [of n])
  qed
qed

lemma str_int_clean: "CHR 0x00 \<notin> set (str_int i)"
  by (simp add: str_int_def str_nat_clean)

lemma trend_notice_clean: "CHR 0x00 \<notin> set (trend_notice t)"
  by (cases t) (simp_all add: trend_notice_def)

lemma add_mood_record_accepts:
  assumes "py_int mood_input = Some n" "1 \<le> n" "n \<le> 10"
    and "CHR 0x00 \<notin> set typed_date" "CHR 0x00 \<notin> set (current_date s)"
    and "get_poem_by_mood st rnd n = Inr found"
    and "\<forall>p. found = Some p \<longrightarrow>
      CHR 0x00 \<notin> set (poem_name p) \<and> CHR 0x00 \<notin> set (writer_name p) \<and>
      CHR 0x00 \<notin> set (poem_text p)"
  shows "add_mood_record win s st rnd typed_date mood_input =
      Inr (s\<lparr>dates := dates s @ [if typed_date = [] then current_date s else typed_date],
             moods := moods s @ [n]\<rparr>,
           RecordAdded (if typed_date = [] then current_date s else typed_date) n found
             (check_mood_trends
                (s\<lparr>dates := dates s @ [if typed_date = [] then current_date s else typed_date],
                    moods := moods s @ [n]\<rparr>)))"
proof -
  let ?d = "if typed_date = [] then current_date s else typed_date"
  let ?s' = "s\<lparr>dates := dates s @ [?d], moods := moods s @ [n]\<rparr>"
  from assms(4,5) have "addstr (''Record added: '' @ ?d @ '' - Mood: '' @ str_int n) = Inr ()"
    by (simp add: addstr_def str_int_clean)
  moreover obtain k where "display_poem win found 6 5 50 = Inr k"
    using display_poem_clean [OF assms(7)] by blast
  moreover have "draw_trend (check_mood_trends ?s') = Inr ()"
    by (simp add: draw_trend_def addstr_def trend_notice_clean)
  ultimately have "show_added win ?s' st rnd ?d n =
      Inr (RecordAdded ?d n found (check_mood_trends ?s'))"
    using assms(6) by (simp add: show_added_def)
  with assms(1-3) show ?thesis
    by (simp add: add_mood_record_def Let_def)
qed

text \<open>
  Claim C2 says that a score from 1 to 10 is accepted and that the "enter a number"
  reason goes with an input that is not a number and leaves the history unchanged.
  When the poem found for the score has a NUL character in its name, drawing it raises
  \<^verbatim>\<open>ValueError\<close> inside the \<^verbatim>\<open>try\<close> block, after the record was appended: the score 7
  is stored, and the notice shown is "Invalid input! Please enter a number for the mood
  score."
\<close>

theorem add_mood_record_nul_in_poem:
  "py_int ''7'' = Some 7 \<and>
   get_poem_by_mood (Table [nul_row]) 0 7 =
     Inr (Some \<lparr>poem_name = [CHR ''J'', CHR 0x00, CHR ''y''], writer_name = ''Ann'',
                 poem_text = ''la la''\<rparr>) \<and>
   add_mood_record sample_window (init_session ''2024-03-01'') (Table [nul_row]) 0
       ''2024-03-02'' ''7'' =
     Inr (\<lparr>dates = [''2024-03-02''], moods = [7], current_date = ''2024-03-01''\<rparr>,
          InvalidInput) \<and>
   rejection_notice InvalidInput = ''Invalid input! Please enter a number for the mood score.''"
  by (simp add: add_mood_record_def show_added_def display_poem_def addstr_def
      get_poem_by_mood_def query_poem_def select_random_def mood_type_of_def nul_row_def
      invalid_input_def rejection_notice_def init_session_def str_int_def
      str_nat.simps [of 7] py_int_def strip_with_def int_space_def literal_value_def
      is_digit_def digit_val_def Let_def)

subsection \<open>Poems by mood\<close>

lemma select_random_matches:
  "select_random rows rnd mt = Some r \<Longrightarrow> r \<in> set rows \<and> mood_type r = mt"
proof -
  assume a: "select_random rows rnd mt = Some r"
  let ?m = "filter (\<lambda>r. mood_type r = mt) rows"
  from a have ne: "?m \<noteq> []" and r: "r = ?m ! (rnd mod length ?m)"
    by (auto simp: select_random_def Let_def split: if_splits)
  from ne have "rnd mod length ?m < length ?m" by simp
  then have "r \<in> set ?m" unfolding r by (rule nth_mem)
  then show ?thesis by simp
qed

lemma select_random_none:
  "select_random rows rnd mt = None \<longleftrightarrow> (\<forall>r \<in> set rows. mood_type r \<noteq> mt)"
  by (auto simp: select_random_def Let_def filter_empty_conv)

lemma select_random_reaches:
  assumes "r \<in> set rows" "mood_type r = mt"
  shows "\<exists>rnd. select_random rows rnd mt = Some r"
proof -
  let ?m = "filter (\<lambda>r. mood_type r = mt) rows"
  from assms have "r \<in> set ?m" by simp
  then obtain i where i: "i < length ?m" "?m ! i = r"
    by (metis in_set_conv_nth)
  then have "?m \<noteq> []" by auto
  with i have "select_random rows i mt = Some r"
    by (simp add: select_random_def Let_def)
  then show ?thesis ..
qed

lemma get_poem_by_mood_table:
  "get_poem_by_mood (Table rows) rnd score =
     Inr (map_option (\<lambda>r. \<lparr>poem_name = poem_name r, writer_name = writer_name r,
                            poem_text = poem_text r\<rparr>)
            (select_random rows rnd (mood_type_of score)))"
  by (simp add: get_poem_by_mood_def query_poem_def split: option.splits)

text \<open>
  Claim C3. \<^verbatim>\<open>get_poem_by_mood\<close> always returns and never raises. A poem it returns is
  the name, writer and text of a stored row whose \<^verbatim>\<open>mood_type\<close> is "happy" when the
  score is 6 or more and "sad" when it is 5 or less. When no stored row has that
  category, it returns \<^verbatim>\<open>None\<close>. When a stored row has that category, it returns a
  poem on every draw, and every stored row of the category is returned on some draw.
\<close>

theorem get_poem_by_mood_category:
  "(\<exists>result. get_poem_by_mood st rnd mood_score = Inr result) \<and>
   (\<forall>p. get_poem_by_mood st rnd mood_score = Inr (Some p) \<longrightarrow>
      (\<exists>rows r. st = Table rows \<and> r \<in> set rows \<and>
         mood_type r = (if mood_score \<ge> 6 then ''happy'' else ''sad'') \<and>
         poem_name r = poem_name p \<and> writer_name r = writer_name p \<and>
         poem_text r = poem_text p)) \<and>
   (\<forall>rows. st = Table rows \<and>
      (\<forall>r \<in> set rows. mood_type r \<noteq> (if mood_score \<ge> 6 then ''happy'' else ''sad'')) \<longrightarrow>
      get_poem_by_mood st rnd mood_score = Inr None) \<and>
   (\<forall>rows r. st = Table rows \<and> r \<in> set rows \<and>
      mood_type r = (if mood_score \<ge> 6 then ''happy'' else ''sad'') \<longrightarrow>
      (\<exists>p. get_poem_by_mood st rnd mood_score = Inr (Some p)) \<and>
      (\<exists>rnd'. get_poem_by_mood st rnd' mood_score =
         Inr (Some \<lparr>poem_name = poem_name r, writer_name = writer_name r,
                     poem_text = poem_text r\<rparr>)))"
proof (intro conjI allI impI)
  show "\<exists>result. get_poem_by_mood st rnd mood_score = Inr result"
    by (cases st) (auto simp: get_poem_by_mood_def query_poem_def split: option.splits)
next
  fix p assume a: "get_poem_by_mood st rnd mood_score = Inr (Some p)"
  then obtain rows where st: "st = Table rows"
    by (cases st) (auto simp: get_poem_by_mood_def query_poem_def)
  with a obtain r where r: "select_random rows rnd (mood_type_of mood_score) = Some r"
    and p: "p = \<lparr>poem_name = poem_name r, writer_name = writer_name r, poem_text = poem_text r\<rparr>"
    by (auto simp: get_poem_by_mood_def query_poem_def split: option.splits)
  from select_random_matches [OF r]
  have "r \<in> set rows" "mood_type r = (if mood_score \<ge> 6 then ''happy'' else ''sad'')"
    by (simp_all add: mood_type_of_def)
  with st p show "\<exists>rows r. st = Table rows \<and> r \<in> set rows \<and>
         mood_type r = (if mood_score \<ge> 6 then ''happy'' else ''sad'') \<and>
         poem_name r = poem_name p \<and> writer_name r = writer_name p \<and>
         poem_text r = poem_text p"
    by auto
next
  fix rows
  assume a: "st = Table rows \<and>
      (\<forall>r \<in> set rows. mood_type r \<noteq> (if mood_score \<ge> 6 then ''happy'' else ''sad''))"
  then have "select_random rows rnd (mood_type_of mood_score) = None"
    by (simp add: select_random_none mood_type_of_def)
  with a show "get_poem_by_mood st rnd mood_score = Inr None"
    by (simp add: get_poem_by_mood_def query_poem_def)
next
  fix rows r
  assume a: "st = Table rows \<and> r \<in> set rows \<and>
      mood_type r = (if mood_score \<ge> 6 then ''happy'' else ''sad'')"
  then have m: "r \<in> set rows" "mood_type r = mood_type_of mood_score"
    by (simp_all add: mood_type_of_def)
  then have "select_random rows rnd (mood_type_of mood_score) \<noteq> None"
    by (auto simp: select_random_none)
  with a show "\<exists>p. get_poem_by_mood st rnd mood_score = Inr (Some p)"
    by (auto simp: get_poem_by_mood_table)
  from select_random_reaches [OF m] obtain rnd' where
    "select_random rows rnd' (mood_type_of mood_score) = Some r" ..
  with a show "\<exists>rnd'. get_poem_by_mood st rnd' mood_score =
         Inr (Some \<lparr>poem_name = poem_name r, writer_name = writer_name r,
                     poem_text = poem_text r\<rparr>)"
    by (auto simp: get_poem_by_mood_table intro!: exI [of _ rnd'])
qed

lemma sample_store_eval:
  "get_poem_by_mood (Table [old_row, last_id_row]) 3 6 =
     Inr (Some \<lparr>poem_name = ''Old'', writer_name = ''Bob'', poem_text = ''tra la''\<rparr>)"
  by (simp add: get_poem_by_mood_def query_poem_def select_random_def mood_type_of_def
      old_row_def last_id_row_def)

theorem get_poem_by_mood_category_witness:
  "get_poem_by_mood (Table [old_row, last_id_row]) 3 6 =
     Inr (Some \<lparr>poem_name = ''Old'', writer_name = ''Bob'', poem_text = ''tra la''\<rparr>) \<and>
   (\<exists>p. get_poem_by_mood (Table [old_row, last_id_row]) 3 5 = Inr (Some p)) \<and>
   (\<exists>rnd'. get_poem_by_mood (Table [old_row, last_id_row]) rnd' 5 =
      Inr (Some \<lparr>poem_name = poem_name last_id_row, writer_name = writer_name last_id_row,
                  poem_text = poem_text last_id_row\<rparr>)) \<and>
   get_poem_by_mood (Table [old_row]) 3 5 = Inr None"
proof -
  have s: "last_id_row \<in> set [old_row, last_id_row]"
    "mood_type last_id_row = (if (5::int) \<ge> 6 then ''happy'' else ''sad'')"
    by (simp_all add: last_id_row_def)
  from get_poem_by_mood_category [of "Table [old_row, last_id_row]" 3 5] s
  have 1: "(\<exists>p. get_poem_by_mood (Table [old_row, last_id_row]) 3 5 = Inr (Some p)) \<and>
   (\<exists>rnd'. get_poem_by_mood (Table [old_row, last_id_row]) rnd' 5 =
      Inr (Some \<lparr>poem_name = poem_name last_id_row, writer_name = writer_name last_id_row,
                  poem_text = poem_text last_id_row\<rparr>))"
    by blast
  have "\<forall>r \<in> set [old_row]. mood_type r \<noteq> (if (5::int) \<ge> 6 then ''happy'' else ''sad'')"
    by (simp add: old_row_def)
  with get_poem_by_mood_category [of "Table [old_row]" 3 5]
  have 2: "get_poem_by_mood (Table [old_row]) 3 5 = Inr None" by blast
  from sample_store_eval 1 2 show ?thesis by blast
qed

subsection \<open>A missing or broken store\<close>

text \<open>
  Claim C7, as stated, asks that a storage failure stay distinguishable from an empty
  category. It does not: on an unreadable file the query raises inside the
  \<^verbatim>\<open>try\<close> block, and the method then returns the very value it returns for a healthy
  table without a matching poem. The returned value is all the method produces; it
  writes no log.
\<close>

theorem storage_error_swallowed_counterexample:
  "query_poem Unreadable 0 7 = Inl DuckDBError \<and>
   get_poem_by_mood Unreadable 0 7 = get_poem_by_mood (Table []) 0 7"
  by (simp add: get_poem_by_mood_def query_poem_def select_random_def)

text \<open>
  Claim C7, amended. When there is no usable table at \<^verbatim>\<open>db_path\<close> (no file, an
  unreadable file, or no table), \<^verbatim>\<open>get_poem_by_mood\<close> returns \<^verbatim>\<open>None\<close>, the same
  value as for an empty table, and \<^verbatim>\<open>add_mood_record\<close> behaves exactly as it does
  with an empty table: the failure is turned into "no poem" inside the method.
\<close>

theorem storage_error_is_not_found:
  "(\<forall>rows. st \<noteq> Table rows) \<longrightarrow>
     get_poem_by_mood st rnd mood_score = Inr None \<and>
     get_poem_by_mood st rnd mood_score = get_poem_by_mood (Table []) rnd mood_score \<and>
     add_mood_record win s st rnd typed_date mood_input =
       add_mood_record win s (Table []) rnd typed_date mood_input"
proof
  assume a: "\<forall>rows. st \<noteq> Table rows"
  have e: "get_poem_by_mood (Table []) rnd' sc = Inr None" for rnd' sc
    by (simp add: get_poem_by_mood_def query_poem_def select_random_def)
  from a have n: "get_poem_by_mood st rnd' sc = Inr None" for rnd' sc
    by (cases st) (simp_all add: get_poem_by_mood_def query_poem_def)
  have sa: "show_added win s' st rnd d m = show_added win s' (Table []) rnd d m" for s' d m
    by (simp only: show_added_def n e)
  have am: "add_mood_record win s st rnd typed_date mood_input =
       add_mood_record win s (Table []) rnd typed_date mood_input"
    by (simp only: add_mood_record_def sa)
  from n e am
  show "get_poem_by_mood st rnd mood_score = Inr None \<and>
     get_poem_by_mood st rnd mood_score = get_poem_by_mood (Table []) rnd mood_score \<and>
     add_mood_record win s st rnd typed_date mood_input =
       add_mood_record win s (Table []) rnd typed_date mood_input"
    by simp
qed

theorem storage_error_is_not_found_witness:
  "get_poem_by_mood Unreadable 2 7 = Inr None \<and>
   get_poem_by_mood Unreadable 2 7 = get_poem_by_mood (Table []) 2 7 \<and>
   add_mood_record sample_window (init_session ''2024-03-01'') Unreadable 2 [] ''7'' =
     add_mood_record sample_window (init_session ''2024-03-01'') (Table []) 2 [] ''7''"
  using storage_error_is_not_found [where st = Unreadable and rnd = 2 and mood_score = 7
      and win = sample_window and s = "init_session ''2024-03-01''" and typed_date = "[]"
      and mood_input = "''7''"]
  by blast

subsection \<open>The chart's view of the history\<close>

text \<open>
  Claim C6. The pairs that \<^verbatim>\<open>plot_mood_chart\<close> sorts are in ascending order of date,
  they are the recorded pairs (as a multiset), and for every date the pairs with that
  date keep their insertion order. With no records the sorted sequence is empty and the
  method shows "No records to display!" instead of a chart; otherwise the chart gets
  exactly the sorted dates and their scores. The records (2024-03-02, 4),
  (2024-03-01, 7) come out as (2024-03-01, 7), (2024-03-02, 4).
\<close>

theorem sorted_dates_moods_stable:
  "sorted (map fst (sorted_dates_moods s)) \<and>
   mset (sorted_dates_moods s) = mset (zip (dates s) (moods s)) \<and>
   (\<forall>d. filter (\<lambda>p. fst p = d) (sorted_dates_moods s) =
        filter (\<lambda>p. fst p = d) (zip (dates s) (moods s))) \<and>
   (dates s = [] \<longrightarrow> sorted_dates_moods s = [] \<and> plot_mood_chart s = NoRecords) \<and>
   (dates s \<noteq> [] \<and> moods s \<noteq> [] \<longrightarrow>
      plot_mood_chart s =
        Plot (map fst (sorted_dates_moods s)) (map snd (sorted_dates_moods s))) \<and>
   sorted_dates_moods \<lparr>dates = [''2024-03-02'', ''2024-03-01''], moods = [4, 7],
        current_date = current_date s\<rparr>
     = [(''2024-03-01'', 7), (''2024-03-02'', 4)]"
proof (intro conjI allI impI)
  show "sorted (map fst (sorted_dates_moods s))"
    by (simp add: sorted_dates_moods_def)
  show "mset (sorted_dates_moods s) = mset (zip (dates s) (moods s))"
    by (simp add: sorted_dates_moods_def)
  show "filter (\<lambda>p. fst p = d) (sorted_dates_moods s) =
        filter (\<lambda>p. fst p = d) (zip (dates s) (moods s))" for d
    unfolding sorted_dates_moods_def by (simp add: sort_key_stable)
  show "sorted_dates_moods s = []" if "dates s = []"
    using that by (simp add: sorted_dates_moods_def)
  show "plot_mood_chart s = NoRecords" if "dates s = []"
    using that by (simp add: plot_mood_chart_def)
  show "plot_mood_chart s =
        Plot (map fst (sorted_dates_moods s)) (map snd (sorted_dates_moods s))"
    if "dates s \<noteq> [] \<and> moods s \<noteq> []"
    using that by (simp add: plot_mood_chart_def)
  show "sorted_dates_moods \<lparr>dates = [''2024-03-02'', ''2024-03-01''], moods = [4, 7],
        current_date = current_date s\<rparr>
     = [(''2024-03-01'', 7), (''2024-03-02'', 4)]"
    by (simp add: sorted_dates_moods_def)
qed

theorem sorted_dates_moods_stable_witness:
  "sorted_dates_moods \<lparr>dates = [''2024-03-02'', ''2024-03-01'', ''2024-03-02''],
       moods = [4, 7, 9], current_date = ''2024-03-05''\<rparr>
     = [(''2024-03-01'', 7), (''2024-03-02'', 4), (''2024-03-02'', 9)] \<and>
   plot_mood_chart \<lparr>dates = [''2024-03-02'', ''2024-03-01'', ''2024-03-02''],
       moods = [4, 7, 9], current_date = ''2024-03-05''\<rparr>
     = Plot [''2024-03-01'', ''2024-03-02'', ''2024-03-02''] [7, 4, 9] \<and>
   plot_mood_chart (init_session ''2024-03-05'') = NoRecords"
proof -
  let ?s = "\<lparr>dates = [''2024-03-02'', ''2024-03-01'', ''2024-03-02''],
       moods = [4, 7, 9::int], current_date = ''2024-03-05''\<rparr>"
  have v: "sorted_dates_moods ?s
     = [(''2024-03-01'', 7), (''2024-03-02'', 4), (''2024-03-02'', 9)]"
    by (simp add: sorted_dates_moods_def)
  have "dates ?s \<noteq> [] \<and> moods ?s \<noteq> []" by simp
  with sorted_dates_moods_stable [of ?s]
  have "plot_mood_chart ?s =
        Plot (map fst (sorted_dates_moods ?s)) (map snd (sorted_dates_moods ?s))"
    by blast
  then have p: "plot_mood_chart ?s
     = Plot [''2024-03-01'', ''2024-03-02'', ''2024-03-02''] [7, 4, 9]"
    by (simp add: v)
  have "dates (init_session ''2024-03-05'') = []" by (simp add: init_session_def)
  with sorted_dates_moods_stable [of "init_session ''2024-03-05''"]
  have e: "plot_mood_chart (init_session ''2024-03-05'') = NoRecords" by blast
  from v p e show ?thesis by blast
qed

subsection \<open>What the menu loop does to the history\<close>

lemma add_mood_record_step:
  assumes "add_mood_record win s st rnd typed_date mood_input = Inr (s', out)"
  shows "current_date s' = current_date s \<and>
    ((dates s' = dates s \<and> moods s' = moods s) \<or>
     (\<exists>n. py_int mood_input = Some n \<and> 1 \<le> n \<and> n \<le> 10 \<and>
        dates s' = dates s @ [if typed_date = [] then current_date s else typed_date] \<and>
        moods s' = moods s @ [n]))"
proof (cases "py_int mood_input")
  case None
  from add_mood_record_rejects(1) [OF None, of win s st rnd typed_date] assms
  show ?thesis by simp
next
  case (Some n)
  show ?thesis
  proof (cases "1 \<le> n \<and> n \<le> 10")
    case True
    with add_mood_record_appends [OF Some, of win s st rnd typed_date] assms Some
    show ?thesis by auto
  next
    case False
    then have "n < 1 \<or> 10 < n" by auto
    from add_mood_record_rejects(2) [OF Some this, of win s st rnd typed_date] assms
    show ?thesis by simp
  qed
qed

lemma handle_step:
  assumes "handle s w c = Inr s'"
  shows "current_date s' = current_date s \<and>
    ((dates s' = dates s \<and> moods s' = moods s) \<or>
     (\<exists>typed_date mood_input n. c = AddMood typed_date mood_input \<and>
        py_int mood_input = Some n \<and> 1 \<le> n \<and> n \<le> 10 \<and>
        dates s' = dates s @ [if typed_date = [] then current_date s else typed_date] \<and>
        moods s' = moods s @ [n]))"
proof (cases c)
  case (AddMood typed_date mood_input)
  with assms obtain out where
    "add_mood_record (screen w) s (store w) (draw w) typed_date mood_input = Inr (s', out)"
    by (auto simp: handle_def split: sum.splits)
  from add_mood_record_step [OF this] AddMood show ?thesis by blast
next
  case Inspirations
  with assms have "s' = s" by (auto simp: handle_def split: sum.splits)
  then show ?thesis by simp
qed (use assms in \<open>auto simp: handle_def\<close>)

lemma run_invariants:
  assumes "run s keys = Inr s'"
  shows "current_date s' = current_date s \<and>
    (\<exists>ds ms. dates s' = dates s @ ds \<and> moods s' = moods s @ ms \<and>
       length ds = length ms \<and> list_all (\<lambda>m. 1 \<le> m \<and> m \<le> 10) ms)"
  using assms
proof (induction keys arbitrary: s)
  case Nil
  then show ?case by simp
next
  case (Cons k keys)
  obtain w c where k: "k = (w, c)" by (cases k)
  show ?case
  proof (cases "c = Exit")
    case True
    with Cons.prems k show ?thesis by simp
  next
    case False
    with Cons.prems k obtain s1 where h: "handle s w c = Inr s1" and r: "run s1 keys = Inr s'"
      by (auto split: sum.splits)
    from handle_step [OF h] obtain ds1 ms1 where
      1: "current_date s1 = current_date s" "dates s1 = dates s @ ds1" "moods s1 = moods s @ ms1"
         "length ds1 = length ms1" "list_all (\<lambda>m. 1 \<le> m \<and> m \<le> 10) ms1"
      by (elim conjE disjE exE) (fastforce+)
    from Cons.IH [OF r] obtain ds ms where
      2: "current_date s' = current_date s1" "dates s' = dates s1 @ ds" "moods s' = moods s1 @ ms"
         "length ds = length ms" "list_all (\<lambda>m. 1 \<le> m \<and> m \<le> 10) ms"
      by blast
    from 1 2 have "dates s' = dates s @ (ds1 @ ds)" "moods s' = moods s @ (ms1 @ ms)"
      "length (ds1 @ ds) = length (ms1 @ ms)" "list_all (\<lambda>m. 1 \<le> m \<and> m \<le> 10) (ms1 @ ms)"
      by simp_all
    with 1 2 show ?thesis by metis
  qed
qed

lemma add_without_poem:
  assumes "py_int mood_input = Some n" "1 \<le> n" "n \<le> 10"
    and "CHR 0x00 \<notin> set typed_date" "CHR 0x00 \<notin> set (current_date s)"
  shows "handle s \<lparr>clock = now, screen = win, store = NoFile, draw = rnd, service = svc\<rparr>
           (AddMood typed_date mood_input) =
      Inr (s\<lparr>dates := dates s @ [if typed_date = [] then current_date s else typed_date],
             moods := moods s @ [n]\<rparr>)"
proof -
  have "get_poem_by_mood NoFile rnd n = Inr None"
    by (simp add: get_poem_by_mood_def)
  from add_mood_record_accepts [OF assms this, of win] show ?thesis
    by (simp add: handle_def)
qed

lemma handle_sample:
  "handle (init_session ''2024-03-01'') (sample_world ''2024-03-09'') (AddMood [] ''7'')
     = Inr \<lparr>dates = [''2024-03-01''], moods = [7], current_date = ''2024-03-01''\<rparr>"
  using add_without_poem [of "''7''" 7 "[]" "init_session ''2024-03-01''"]
  by (simp add: py_int_examples init_session_def sample_world_def)

lemma run_sample: "run (init_session ''2024-03-01'') sample_keys = Inr sample_final"
proof -
  let ?s1 = "\<lparr>dates = [''2024-03-01''], moods = [7], current_date = ''2024-03-01''\<rparr>"
  have "py_int ''12'' = Some 12"
    by (simp add: py_int_def strip_with_def int_space_def literal_value_def
        is_digit_def digit_val_def)
  from add_mood_record_rejects(2) [OF this]
  have 3: "handle ?s1 (sample_world ''2024-03-11'') (AddMood ''2024-02-02'' ''12'') = Inr ?s1"
    by (simp add: handle_def)
  have "py_int ''3'' = Some 3" by (simp add: py_int_one_to_ten)
  from add_without_poem [OF this, of "''2024-02-03''" ?s1]
  have 4: "handle ?s1 (sample_world ''2024-03-12'') (AddMood ''2024-02-03'' ''3'')
      = Inr sample_final"
    by (simp add: sample_world_def sample_final_def)
  have 2: "handle ?s1 (sample_world ''2024-03-10'') ViewRecords = Inr ?s1"
    by (simp add: handle_def)
  show ?thesis
    by (simp add: sample_keys_def handle_sample 2 3 4)
qed

text \<open>
  Claim C5. Every score in the history of a session that started empty is an integer
  from 1 to 10. One menu action either leaves both lists as they were or appends one
  date and one score from 1 to 10 at their ends. Whatever the keys pressed, the lists
  before are an initial segment of the lists after: no entry is changed or removed.
\<close>

theorem history_append_only:
  "(\<forall>s'. run (init_session today) keys = Inr s' \<longrightarrow>
      list_all (\<lambda>m. 1 \<le> m \<and> m \<le> 10) (moods s')) \<and>
   (\<forall>s'. handle s w c = Inr s' \<longrightarrow>
      (dates s' = dates s \<and> moods s' = moods s) \<or>
      (\<exists>d n. 1 \<le> n \<and> n \<le> 10 \<and> dates s' = dates s @ [d] \<and> moods s' = moods s @ [n])) \<and>
   (\<forall>s'. run s keys = Inr s' \<longrightarrow>
      take (length (dates s)) (dates s') = dates s \<and>
      take (length (moods s)) (moods s') = moods s)"
proof (intro conjI allI impI)
  fix s' assume "run (init_session today) keys = Inr s'"
  from run_invariants [OF this]
  show "list_all (\<lambda>m. 1 \<le> m \<and> m \<le> 10) (moods s')"
    by (auto simp: init_session_def)
next
  fix s' assume "handle s w c = Inr s'"
  from handle_step [OF this]
  show "(dates s' = dates s \<and> moods s' = moods s) \<or>
      (\<exists>d n. 1 \<le> n \<and> n \<le> 10 \<and> dates s' = dates s @ [d] \<and> moods s' = moods s @ [n])"
    by blast
next
  fix s' assume r: "run s keys = Inr s'"
  from run_invariants [OF r] show "take (length (dates s)) (dates s') = dates s"
    by auto
  from run_invariants [OF r] show "take (length (moods s)) (moods s') = moods s"
    by auto
qed

theorem history_append_only_witness:
  "run (init_session ''2024-03-01'') sample_keys = Inr sample_final \<and>
   list_all (\<lambda>m. 1 \<le> m \<and> m \<le> 10) (moods sample_final) \<and>
   take (length (dates (init_session ''2024-03-01''))) (dates sample_final)
     = dates (init_session ''2024-03-01'') \<and>
   (\<exists>s'. handle (init_session ''2024-03-01'') (sample_world ''2024-03-09'') (AddMood [] ''7'')
            = Inr s' \<and>
      ((dates s' = dates (init_session ''2024-03-01'') \<and>
        moods s' = moods (init_session ''2024-03-01'')) \<or>
       (\<exists>d n. 1 \<le> n \<and> n \<le> 10 \<and> dates s' = dates (init_session ''2024-03-01'') @ [d] \<and>
          moods s' = moods (init_session ''2024-03-01'') @ [n])))"
  using history_append_only [where today = "''2024-03-01''" and keys = sample_keys
      and s = "init_session ''2024-03-01''" and w = "sample_world ''2024-03-09''"
      and c = "AddMood [] ''7''"]
    run_sample handle_sample
  by blast

text \<open>
  Claim C10. In every session started empty, the date list and the score list have the
  same length, so the listing \<^verbatim>\<open>zip(self.dates, self.moods)\<close> pairs every date with
  its score and drops nothing. One menu action keeps the two lengths equal.
\<close>

theorem parallel_lists_in_step:
  "(\<forall>s'. run (init_session today) keys = Inr s' \<longrightarrow>
      length (dates s') = length (moods s') \<and>
      map fst (view_mood_records s') = dates s' \<and>
      map snd (view_mood_records s') = moods s') \<and>
   (\<forall>s'. length (dates s) = length (moods s) \<and> handle s w c = Inr s' \<longrightarrow>
      length (dates s') = length (moods s'))"
proof (intro conjI allI impI)
  fix s' assume "run (init_session today) keys = Inr s'"
  from run_invariants [OF this]
  show l: "length (dates s') = length (moods s')"
    by (auto simp: init_session_def)
  from l show "map fst (view_mood_records s') = dates s'"
    by (simp add: view_mood_records_def)
  from l show "map snd (view_mood_records s') = moods s'"
    by (simp add: view_mood_records_def)
next
  fix s' assume a: "length (dates s) = length (moods s) \<and> handle s w c = Inr s'"
  then have "handle s w c = Inr s'" by simp
  from handle_step [OF this] a show "length (dates s') = length (moods s')"
    by auto
qed

theorem parallel_lists_in_step_witness:
  "run (init_session ''2024-03-01'') sample_keys = Inr sample_final \<and>
   length (dates sample_final) = length (moods sample_final) \<and>
   map fst (view_mood_records sample_final) = dates sample_final \<and>
   map snd (view_mood_records sample_final) = moods sample_final \<and>
   (\<exists>s'. handle (init_session ''2024-03-01'') (sample_world ''2024-03-09'') (AddMood [] ''7'')
            = Inr s' \<and> length (dates s') = length (moods s'))"
proof -
  have "length (dates (init_session ''2024-03-01'')) = length (moods (init_session ''2024-03-01''))"
    by (simp add: init_session_def)
  with parallel_lists_in_step [where today = "''2024-03-01''" and keys = sample_keys
      and s = "init_session ''2024-03-01''" and w = "sample_world ''2024-03-09''"
      and c = "AddMood [] ''7''"]
    run_sample handle_sample
  show ?thesis by blast
qed

text \<open>
  Claim C8. Whatever keys were pressed and whatever the clock showed at each of them,
  \<^verbatim>\<open>current_date\<close> is still the date taken at construction, and a record entered
  with an empty date line and a score from 1 to 10 is stored with exactly that date.
\<close>

theorem default_date_is_snapshot:
  "\<forall>s. run (init_session today) keys = Inr s \<longrightarrow>
     current_date s = today \<and>
     (\<forall>n. py_int mood_input = Some n \<and> 1 \<le> n \<and> n \<le> 10 \<longrightarrow>
        (\<exists>s' out.
           add_mood_record win s st rnd [] mood_input = Inr (s', out) \<and>
           dates s' = dates s @ [today] \<and> moods s' = moods s @ [n] \<and>
           current_date s' = today))"
proof (intro allI impI conjI)
  fix s assume r: "run (init_session today) keys = Inr s"
  from run_invariants [OF r] show c: "current_date s = today"
    by (simp add: init_session_def)
  fix n assume a: "py_int mood_input = Some n \<and> 1 \<le> n \<and> n \<le> 10"
  then have "py_int mood_input = Some n" "1 \<le> n" "n \<le> 10" by simp_all
  from add_mood_record_appends [OF this, of win s st rnd "[]"] c
  show "\<exists>s' out.
           add_mood_record win s st rnd [] mood_input = Inr (s', out) \<and>
           dates s' = dates s @ [today] \<and> moods s' = moods s @ [n] \<and>
           current_date s' = today"
    by auto
qed

theorem default_date_is_snapshot_witness:
  "run (init_session ''2024-03-01'') sample_keys = Inr sample_final \<and>
   current_date sample_final = ''2024-03-01'' \<and>
   (\<exists>s' out.
      add_mood_record sample_window sample_final NoFile 0 [] ''7'' = Inr (s', out) \<and>
      dates s' = dates sample_final @ [''2024-03-01''] \<and>
      moods s' = moods sample_final @ [7] \<and>
      current_date s' = ''2024-03-01'')"
proof -
  have "py_int ''7'' = Some 7 \<and> (1::int) \<le> 7 \<and> (7::int) \<le> 10"
    by (simp add: py_int_examples)
  with default_date_is_snapshot [where today = "''2024-03-01''" and keys = sample_keys
      and mood_input = "''7''" and st = NoFile and rnd = 0 and win = sample_window] run_sample
  show ?thesis by blast
qed

subsection \<open>The attempt budget of the remote fetch\<close>

text \<open>
  What holds of \<^verbatim>\<open>get_random_poem\<close> on every run: it sends at most 20 requests; a
  poem it returns comes from an answer whose line count, read by \<^verbatim>\<open>int()\<close>, is below
  1000; and when every answer is unsuitable or fails with one of the four exceptions
  the \<^verbatim>\<open>except\<close> clause names, it returns \<^verbatim>\<open>None\<close> after exactly 20 requests.
\<close>

lemma fetch_loop_budget:
  "attempts \<le> max_attempts \<Longrightarrow>
   fst (fetch_loop svc attempts sent) \<le> sent + (max_attempts - attempts)"
proof (induction svc attempts sent rule: fetch_loop.induct)
  case (1 svc attempts sent)
  show ?case
  proof (cases "attempts < max_attempts")
    case False
    then show ?thesis by (simp add: fetch_loop.simps [of svc attempts sent])
  next
    case True
    then have le: "Suc attempts \<le> max_attempts" by simp
    show ?thesis
    proof (cases "try_fetch (svc sent)")
      case (Inl e)
      show ?thesis
      proof (cases "caught e \<and> \<not> Suc attempts \<ge> max_attempts")
        case c: True
        from "1.IH" True Inl c le
        have "fst (fetch_loop svc (Suc attempts) (Suc sent))
            \<le> Suc sent + (max_attempts - Suc attempts)" by blast
        moreover from c Inl True
        have "fetch_loop svc attempts sent = fetch_loop svc (Suc attempts) (Suc sent)"
          by (simp add: fetch_loop.simps [of svc attempts sent])
        ultimately show ?thesis using le by simp
      next
        case False
        with Inl True show ?thesis
          by (auto simp: fetch_loop.simps [of svc attempts sent])
      qed
    next
      case (Inr found)
      show ?thesis
      proof (cases found)
        case None
        from "1.IH" True Inr None le
        have "fst (fetch_loop svc (Suc attempts) (Suc sent))
            \<le> Suc sent + (max_attempts - Suc attempts)" by blast
        moreover from None Inr True
        have "fetch_loop svc attempts sent = fetch_loop svc (Suc attempts) (Suc sent)"
          by (simp add: fetch_loop.simps [of svc attempts sent])
        ultimately show ?thesis using le by simp
      next
        case (Some p)
        with Inr True show ?thesis
          by (simp add: fetch_loop.simps [of svc attempts sent])
      qed
    qed
  qed
qed

lemma get_random_poem_at_most_20: "fst (get_random_poem svc) \<le> 20"
  using fetch_loop_budget [of 0 svc 0]
  by (simp add: get_random_poem_def max_attempts_def)

lemma try_fetch_suitable:
  assumes "try_fetch r = Inr (Some p)"
  shows "\<exists>poems poem lc n. r = Body poems \<and> first_item poems = Inr poem \<and>
           py_get poem ''linecount'' (PInt 0) = Inr lc \<and> int_of lc = Inr n \<and> n < 1000"
  using assms
  by (cases r) (auto simp: try_fetch_def split: if_splits sum.splits)

lemma fetch_loop_found:
  "snd (fetch_loop svc attempts sent) = Inr (Some p) \<Longrightarrow>
   \<exists>k. sent \<le> k \<and> k < sent + (max_attempts - attempts) \<and> try_fetch (svc k) = Inr (Some p)"
proof (induction svc attempts sent rule: fetch_loop.induct)
  case (1 svc attempts sent)
  show ?case
  proof (cases "attempts < max_attempts")
    case False
    with "1.prems" show ?thesis by (simp add: fetch_loop.simps [of svc attempts sent])
  next
    case True
    show ?thesis
    proof (cases "try_fetch (svc sent) = Inr (Some p)")
      case now: True
      with True show ?thesis by (intro exI [of _ sent]) simp
    next
      case later: False
      with "1.prems" True
      have rec: "fetch_loop svc attempts sent = fetch_loop svc (Suc attempts) (Suc sent)"
        and side: "try_fetch (svc sent) = Inr None \<or>
          (\<exists>e. try_fetch (svc sent) = Inl e \<and> caught e \<and> \<not> Suc attempts \<ge> max_attempts)"
        by (auto simp: fetch_loop.simps [of svc attempts sent]
            split: sum.splits option.splits if_splits)
      from "1.IH" True side "1.prems" rec
      obtain k where "Suc sent \<le> k" "k < Suc sent + (max_attempts - Suc attempts)"
        "try_fetch (svc k) = Inr (Some p)"
        by auto
      with True show ?thesis by (intro exI [of _ k]) auto
    qed
  qed
qed

lemma fetch_loop_exhausted:
  "\<forall>k. try_fetch (svc k) = Inr None \<or> (\<exists>e. try_fetch (svc k) = Inl e \<and> caught e) \<Longrightarrow>
   attempts \<le> max_attempts \<Longrightarrow>
   fetch_loop svc attempts sent = (sent + (max_attempts - attempts), Inr None)"
proof (induction svc attempts sent rule: fetch_loop.induct)
  case (1 svc attempts sent)
  show ?case
  proof (cases "attempts < max_attempts")
    case False
    then have "fetch_loop svc attempts sent = (sent, Inr None)"
      by (simp add: fetch_loop.simps [of svc attempts sent])
    with False "1.prems"(2) show ?thesis by simp
  next
    case True
    then have le: "Suc attempts \<le> max_attempts" by simp
    from "1.prems"(1) have here:
      "try_fetch (svc sent) = Inr None \<or> (\<exists>e. try_fetch (svc sent) = Inl e \<and> caught e)"
      by blast
    show ?thesis
    proof (cases "Suc attempts \<ge> max_attempts \<and> (\<exists>e. try_fetch (svc sent) = Inl e)")
      case last: True
      with here le True show ?thesis
        by (auto simp: fetch_loop.simps [of svc attempts sent])
    next
      case False
      with here True
      have rec: "fetch_loop svc attempts sent = fetch_loop svc (Suc attempts) (Suc sent)"
        by (auto simp: fetch_loop.simps [of svc attempts sent])
      from "1.IH" True here False "1.prems"(1) le
      have "fetch_loop svc (Suc attempts) (Suc sent)
          = (Suc sent + (max_attempts - Suc attempts), Inr None)"
        by auto
      with rec le show ?thesis by simp
    qed
  qed
qed

lemma get_random_poem_exhausted:
  "\<forall>k. try_fetch (svc k) = Inr None \<or> (\<exists>e. try_fetch (svc k) = Inl e \<and> caught e) \<Longrightarrow>
   get_random_poem svc = (20, Inr None)"
  using fetch_loop_exhausted [of svc 0 0]
  by (simp add: get_random_poem_def max_attempts_def)

lemma get_random_poem_suitable:
  assumes "snd (get_random_poem svc) = Inr (Some p)"
  shows "\<exists>k poems poem lc n. k < 20 \<and> svc k = Body poems \<and> first_item poems = Inr poem \<and>
           py_get poem ''linecount'' (PInt 0) = Inr lc \<and> int_of lc = Inr n \<and> n < 1000"
proof -
  from fetch_loop_found [of svc 0 0 p] assms
  obtain k where "k < 20" "try_fetch (svc k) = Inr (Some p)"
    by (auto simp: get_random_poem_def max_attempts_def)
  with try_fetch_suitable [of "svc k" p] show ?thesis by blast
qed

text \<open>
  Claim C4 says that \<^verbatim>\<open>get_random_poem\<close> never raises on a malformed response. It
  does: when the service answers with a list whose first poem has a null line count,
  \<^verbatim>\<open>int(None)\<close> raises \<^verbatim>\<open>TypeError\<close>, and when the first element of the list is not
  a dictionary, \<^verbatim>\<open>poem.get\<close> raises \<^verbatim>\<open>AttributeError\<close>. The \<^verbatim>\<open>except\<close> clause names
  neither, so the exception leaves the method on the first request.
\<close>

theorem get_random_poem_raises_on_null_linecount:
  "get_random_poem (\<lambda>k. Body (PList [PDict [(''linecount'', PNone)]])) = (1, Inl TypeError) \<and>
   \<not> caught TypeError \<and>
   get_random_poem (\<lambda>k. Body (PList [PNone])) = (1, Inl AttributeError) \<and>
   \<not> caught AttributeError"
  by (simp add: get_random_poem_def fetch_loop.simps max_attempts_def try_fetch_def caught_def)

subsection \<open>From the scraper's insert to the mood query\<close>












end
